theory Spec2Isabelle
  imports Complex_Main
begin

section \<open>Number platform for La Marzocco espresso machines\<close>

text \<open>
  A shallow embedding of \<^verbatim>\<open>homeassistant/components/lamarzocco/number.py\<close>.

  Numbers (\<^verbatim>\<open>float | int\<close>) are exact reals: the model computes \<^verbatim>\<open>value * 1000\<close>
  without the rounding of binary floating point. A coroutine of this file makes at most
  one call of the vendor SDK, so it is modelled by the request it sends (or the exception
  raised while the arguments are evaluated); awaiting it hands the request to the SDK,
  which is a parameter of the model.
\<close>

subsection \<open>Python values\<close>

datatype exn =
    KeyError string
  | SdkError string

text \<open>The values of a status snapshot: numbers and mode flags.\<close>

datatype pyval = PNum real | PBool bool

text \<open>A \<^verbatim>\<open>bool\<close> is an \<^verbatim>\<open>int\<close> in Python: \<^verbatim>\<open>True * 1000 == 1000\<close>.\<close>

fun num :: "pyval \<Rightarrow> real" where
  "num (PNum x) = x"
| "num (PBool b) = (if b then 1 else 0)"

text \<open>\<^verbatim>\<open>int(x)\<close> on a number truncates toward zero.\<close>

definition py_int :: "real \<Rightarrow> int" where
  "py_int x = (if 0 \<le> x then \<lfloor>x\<rfloor> else \<lceil>x\<rceil>)"

text \<open>\<^verbatim>\<open>d[k]\<close> on a dict raises \<^verbatim>\<open>KeyError\<close> when the key is missing.\<close>

definition getitem :: "(string \<rightharpoonup> 'v) \<Rightarrow> string \<Rightarrow> exn + 'v" where
  "getitem d k = (case d k of None \<Rightarrow> Inl (KeyError k) | Some v \<Rightarrow> Inr v)"

text \<open>\<^verbatim>\<open>str(i)\<close> and \<^verbatim>\<open>f"{i}"\<close> on an \<^verbatim>\<open>int\<close>: decimal digits, with a minus sign.\<close>

definition digit :: "nat \<Rightarrow> char" where
  "digit d = ''0123456789'' ! d"

function str_nat :: "nat \<Rightarrow> string" where
  "str_nat n = (if n < 10 then [digit n] else str_nat (n div 10) @ [digit (n mod 10)])"
  by pat_completeness auto
termination
  by (relation "measure id") auto

declare str_nat.simps [simp del]

definition str :: "int \<Rightarrow> string" where
  "str i = (if i < 0 then CHR ''-'' # str_nat (nat (- i)) else str_nat (nat i))"

text \<open>\<^verbatim>\<open>range(a, b)\<close> on integers.\<close>

definition py_range :: "int \<Rightarrow> int \<Rightarrow> int list" where
  "py_range a b = [a..b - 1]"

subsection \<open>The vendor SDK client and the coordinator\<close>

text \<open>
  \<^verbatim>\<open>LaMarzoccoModel\<close> comes from the vendor library. This file names two of its
  members; every other member is an \<open>OtherModel\<close>.
\<close>

datatype LaMarzoccoModel = GS3_AV | GS3_MP | OtherModel string

fun repr_model :: "LaMarzoccoModel \<Rightarrow> string" where
  "repr_model GS3_AV = ''GS3_AV''"
| "repr_model GS3_MP = ''GS3_MP''"
| "repr_model (OtherModel name) = name"

record LaMarzoccoClient =
  model_name :: LaMarzoccoModel
  current_status :: "string \<rightharpoonup> pyval"

record LaMarzoccoUpdateCoordinator =
  lm :: LaMarzoccoClient

text \<open>
  The asynchronous methods of the client that this file calls, with the arguments of the
  call. A keyword argument that the caller leaves out is \<open>None\<close>.
\<close>

datatype sdk_call =
    set_coffee_temp real
  | set_steam_temp int
  | set_dose_hot_water int
  | configure_prebrew (on_time: "int option") (off_time: "int option") (key_arg: int)
  | set_dose (key_arg: int) (value_arg: int)

type_synonym request = "exn + sdk_call"

subsection \<open>Entity descriptions\<close>

datatype NumberDeviceClass = TEMPERATURE | DURATION

datatype EntityCategory = CONFIG

text \<open>
  Both description classes have the fields of \<^verbatim>\<open>LaMarzoccoEntityDescription\<close> and
  \<^verbatim>\<open>NumberEntityDescription\<close>; they differ in the types of the getter \<open>'g\<close> and of the
  setter \<open>'s\<close>.
\<close>

record ('g, 's) description =
  key :: string
  translation_key :: string
  device_class :: "NumberDeviceClass option"
  native_unit_of_measurement :: string
  native_step :: real
  native_min_value :: real
  native_max_value :: real
  entity_category :: "EntityCategory option"
  supported_fn :: "LaMarzoccoUpdateCoordinator \<Rightarrow> bool"
  available_fn :: "LaMarzoccoClient \<Rightarrow> exn + pyval"
  native_value_fn :: 'g
  set_value_fn :: 's

type_synonym LaMarzoccoNumberEntityDescription =
  "(LaMarzoccoClient \<Rightarrow> exn + pyval,
    LaMarzoccoUpdateCoordinator \<Rightarrow> real \<Rightarrow> request) description"

type_synonym LaMarzoccoKeyNumberEntityDescription =
  "(LaMarzoccoClient \<Rightarrow> int \<Rightarrow> exn + pyval,
    LaMarzoccoClient \<Rightarrow> real \<Rightarrow> int \<Rightarrow> request) description"

definition PRECISION_TENTHS :: real where
  "PRECISION_TENTHS = 0.1"

definition PRECISION_WHOLE :: real where
  "PRECISION_WHOLE = 1"

text \<open>
  Modelled from the spec: the defaults of \<^verbatim>\<open>supported_fn\<close> and \<^verbatim>\<open>available_fn\<close>, which
  \<^verbatim>\<open>LaMarzoccoEntityDescription\<close> declares in \<^verbatim>\<open>entity.py\<close>, a file that is not
  among the sources. A description that declares no predicate of its own is not filtered
  out for any model and is not gated on the status.
\<close>

definition default_supported_fn :: "LaMarzoccoUpdateCoordinator \<Rightarrow> bool" where
  "default_supported_fn coordinator = True"

definition default_available_fn :: "LaMarzoccoClient \<Rightarrow> exn + pyval" where
  "default_available_fn client = Inr (PBool True)"

definition ENTITIES :: "LaMarzoccoNumberEntityDescription list" where
  "ENTITIES = [
    \<lparr> key = ''coffee_temp'',
      translation_key = ''coffee_temp'',
      device_class = Some TEMPERATURE,
      native_unit_of_measurement = ''CELSIUS'',
      native_step = PRECISION_TENTHS,
      native_min_value = 85,
      native_max_value = 104,
      entity_category = None,
      supported_fn = default_supported_fn,
      available_fn = default_available_fn,
      native_value_fn = (\<lambda>client. getitem (current_status client) ''coffee_set_temp''),
      set_value_fn = (\<lambda>coordinator temp. Inr (set_coffee_temp temp)) \<rparr>,
    \<lparr> key = ''steam_temp'',
      translation_key = ''steam_temp'',
      device_class = Some TEMPERATURE,
      native_unit_of_measurement = ''CELSIUS'',
      native_step = PRECISION_WHOLE,
      native_min_value = 126,
      native_max_value = 131,
      entity_category = None,
      supported_fn = (\<lambda>coordinator. model_name (lm coordinator) \<in> {GS3_AV, GS3_MP}),
      available_fn = default_available_fn,
      native_value_fn = (\<lambda>client. getitem (current_status client) ''steam_set_temp''),
      set_value_fn = (\<lambda>coordinator temp. Inr (set_steam_temp (py_int temp))) \<rparr>,
    \<lparr> key = ''tea_water_duration'',
      translation_key = ''tea_water_duration'',
      device_class = Some DURATION,
      native_unit_of_measurement = ''SECONDS'',
      native_step = PRECISION_WHOLE,
      native_min_value = 0,
      native_max_value = 30,
      entity_category = None,
      supported_fn = (\<lambda>coordinator. model_name (lm coordinator) \<in> {GS3_AV, GS3_MP}),
      available_fn = default_available_fn,
      native_value_fn = (\<lambda>client. getitem (current_status client) ''dose_hot_water''),
      set_value_fn = (\<lambda>coordinator v. Inr (set_dose_hot_water (py_int v))) \<rparr>
  ]"

subsection \<open>The composite setters\<close>

text \<open>
  \<^verbatim>\<open>_set_prebrew_on\<close>, \<^verbatim>\<open>_set_prebrew_off\<close> and \<^verbatim>\<open>_set_preinfusion\<close>, without the leading
  underscore. The arguments are evaluated in the order of the source; only the lookup in
  the status can raise.
\<close>

definition set_prebrew_on :: "LaMarzoccoClient \<Rightarrow> real \<Rightarrow> int \<Rightarrow> request" where
  "set_prebrew_on client v k =
     (let on = py_int (v * 1000) in
      case getitem (current_status client) (''prebrewing_toff_k'' @ str k) of
        Inl e \<Rightarrow> Inl e
      | Inr toff \<Rightarrow> Inr (configure_prebrew (Some on) (Some (py_int (num toff * 1000))) k))"

definition set_prebrew_off :: "LaMarzoccoClient \<Rightarrow> real \<Rightarrow> int \<Rightarrow> request" where
  "set_prebrew_off client v k =
     (case getitem (current_status client) (''prebrewing_ton_k'' @ str k) of
        Inl e \<Rightarrow> Inl e
      | Inr ton \<Rightarrow>
          Inr (configure_prebrew (Some (py_int (num ton * 1000))) (Some (py_int (v * 1000))) k))"

definition set_preinfusion :: "LaMarzoccoClient \<Rightarrow> real \<Rightarrow> int \<Rightarrow> request" where
  "set_preinfusion client v k = Inr (configure_prebrew None (Some (py_int (v * 1000))) k)"

definition KEY_ENTITIES :: "LaMarzoccoKeyNumberEntityDescription list" where
  "KEY_ENTITIES = [
    \<lparr> key = ''prebrew_off'',
      translation_key = ''prebrew_off'',
      device_class = Some DURATION,
      native_unit_of_measurement = ''SECONDS'',
      native_step = PRECISION_TENTHS,
      native_min_value = 1,
      native_max_value = 10,
      entity_category = Some CONFIG,
      supported_fn = (\<lambda>coordinator. model_name (lm coordinator) \<noteq> GS3_MP),
      available_fn = (\<lambda>client. getitem (current_status client) ''enable_prebrewing''),
      native_value_fn =
        (\<lambda>client k. getitem (current_status client) (''prebrewing_ton_k'' @ str k)),
      set_value_fn = set_prebrew_off \<rparr>,
    \<lparr> key = ''prebrew_on'',
      translation_key = ''prebrew_on'',
      device_class = Some DURATION,
      native_unit_of_measurement = ''SECONDS'',
      native_step = PRECISION_TENTHS,
      native_min_value = 2,
      native_max_value = 10,
      entity_category = Some CONFIG,
      supported_fn = (\<lambda>coordinator. model_name (lm coordinator) \<noteq> GS3_MP),
      available_fn = (\<lambda>client. getitem (current_status client) ''enable_prebrewing''),
      native_value_fn =
        (\<lambda>client k. getitem (current_status client) (''prebrewing_toff_k'' @ str k)),
      set_value_fn = set_prebrew_on \<rparr>,
    \<lparr> key = ''preinfusion_off'',
      translation_key = ''preinfusion_off'',
      device_class = Some DURATION,
      native_unit_of_measurement = ''SECONDS'',
      native_step = PRECISION_TENTHS,
      native_min_value = 2,
      native_max_value = 29,
      entity_category = Some CONFIG,
      supported_fn = (\<lambda>coordinator. model_name (lm coordinator) \<noteq> GS3_MP),
      available_fn = (\<lambda>client. getitem (current_status client) ''enable_preinfusion''),
      native_value_fn =
        (\<lambda>client k. getitem (current_status client) (''preinfusion_k'' @ str k)),
      set_value_fn = set_preinfusion \<rparr>,
    \<lparr> key = ''dose'',
      translation_key = ''dose'',
      device_class = None,
      native_unit_of_measurement = ''ticks'',
      native_step = PRECISION_WHOLE,
      native_min_value = 0,
      native_max_value = 999,
      entity_category = Some CONFIG,
      supported_fn = (\<lambda>coordinator. model_name (lm coordinator) = GS3_AV),
      available_fn = default_available_fn,
      native_value_fn = (\<lambda>client k. getitem (current_status client) (''dose_k'' @ str k)),
      set_value_fn = (\<lambda>client ticks k. Inr (set_dose k (py_int ticks))) \<rparr>
  ]"

subsection \<open>Awaiting the SDK, and the events the host can observe\<close>

datatype event =
    SdkCall sdk_call
  | SdkReturned bool
  | SdkRaised exn
  | WriteHaState

text \<open>
  The live coordinator, which every entity refers to, and the log of what has happened.
\<close>

record runtime =
  coordinator :: LaMarzoccoUpdateCoordinator
  events :: "event list"

text \<open>
  The SDK is outside this file: a call returns its success flag or raises, and may change
  the client in both cases.
\<close>

type_synonym sdk = "sdk_call \<Rightarrow> LaMarzoccoClient \<Rightarrow> (exn + bool) \<times> LaMarzoccoClient"

definition await :: "sdk \<Rightarrow> request \<Rightarrow> runtime \<Rightarrow> (exn + bool) \<times> runtime" where
  "await sdk req w =
     (case req of
        Inl e \<Rightarrow> (Inl e, w)
      | Inr call \<Rightarrow>
          (case sdk call (lm (coordinator w)) of
             (Inl e, client') \<Rightarrow>
               (Inl e, w\<lparr>coordinator := (coordinator w)\<lparr>lm := client'\<rparr>,
                         events := events w @ [SdkCall call, SdkRaised e]\<rparr>)
           | (Inr ok, client') \<Rightarrow>
               (Inr ok, w\<lparr>coordinator := (coordinator w)\<lparr>lm := client'\<rparr>,
                          events := events w @ [SdkCall call, SdkReturned ok]\<rparr>)))"

definition async_write_ha_state :: "runtime \<Rightarrow> runtime" where
  "async_write_ha_state w = w\<lparr>events := events w @ [WriteHaState]\<rparr>"

subsection \<open>Entities\<close>

record 'd LaMarzoccoEntity =
  attr_translation_key :: string
  attr_translation_placeholders :: "(string \<times> string) list option"
  attr_unique_id :: string
  attr_entity_registry_enabled_default :: bool
  entity_description :: 'd

text \<open>
  Modelled from the spec: the constructor of the base class \<^verbatim>\<open>LaMarzoccoEntity\<close>, which
  is in \<^verbatim>\<open>entity.py\<close> and in the host framework, not among the sources. An entity has an
  identity string and an enablement flag, and is enabled unless its constructor says
  otherwise. How the base identity is built from the coordinator and the key of the
  description is not known: it is the parameter \<open>unique_id\<close>.
\<close>

definition LaMarzoccoEntity_init ::
  "(LaMarzoccoUpdateCoordinator \<Rightarrow> string \<Rightarrow> string) \<Rightarrow> LaMarzoccoUpdateCoordinator \<Rightarrow>
   ('g, 's) description \<Rightarrow> ('g, 's) description LaMarzoccoEntity" where
  "LaMarzoccoEntity_init unique_id c description =
     \<lparr> attr_translation_key = translation_key description,
       attr_translation_placeholders = None,
       attr_unique_id = unique_id c (key description),
       attr_entity_registry_enabled_default = True,
       entity_description = description \<rparr>"

type_synonym LaMarzoccoNumberEntity = "LaMarzoccoNumberEntityDescription LaMarzoccoEntity"

definition LaMarzoccoNumberEntity_native_value ::
  "LaMarzoccoNumberEntity \<Rightarrow> runtime \<Rightarrow> exn + pyval" where
  "LaMarzoccoNumberEntity_native_value self w =
     native_value_fn (entity_description self) (lm (coordinator w))"

definition LaMarzoccoNumberEntity_async_set_native_value ::
  "sdk \<Rightarrow> LaMarzoccoNumberEntity \<Rightarrow> real \<Rightarrow> runtime \<Rightarrow> (exn + unit) \<times> runtime" where
  "LaMarzoccoNumberEntity_async_set_native_value sdk self v w =
     (case await sdk (set_value_fn (entity_description self) (coordinator w) v) w of
        (Inl e, w') \<Rightarrow> (Inl e, w')
      | (Inr ok, w') \<Rightarrow> (Inr (), async_write_ha_state w'))"

record LaMarzoccoKeyNumberEntity =
  "LaMarzoccoKeyNumberEntityDescription LaMarzoccoEntity" +
  pyhsical_key :: int

definition LaMarzoccoKeyNumberEntity_init ::
  "(LaMarzoccoUpdateCoordinator \<Rightarrow> string \<Rightarrow> string) \<Rightarrow> LaMarzoccoUpdateCoordinator \<Rightarrow>
   LaMarzoccoKeyNumberEntityDescription \<Rightarrow> int \<Rightarrow> LaMarzoccoKeyNumberEntity" where
  "LaMarzoccoKeyNumberEntity_init unique_id c description k =
     (let super = LaMarzoccoEntity_init unique_id c description in
      if k = 0 then
        \<lparr> attr_translation_key = attr_translation_key super,
          attr_translation_placeholders = attr_translation_placeholders super,
          attr_unique_id = attr_unique_id super,
          attr_entity_registry_enabled_default = attr_entity_registry_enabled_default super,
          entity_description = entity_description super,
          pyhsical_key = 1 \<rparr>
      else
        \<lparr> attr_translation_key = translation_key description @ ''_key'',
          attr_translation_placeholders = Some [(''key'', str k)],
          attr_unique_id = attr_unique_id super @ ''_key'' @ str k,
          attr_entity_registry_enabled_default = False,
          entity_description = entity_description super,
          pyhsical_key = k \<rparr>)"

definition LaMarzoccoKeyNumberEntity_native_value ::
  "LaMarzoccoKeyNumberEntity \<Rightarrow> runtime \<Rightarrow> exn + pyval" where
  "LaMarzoccoKeyNumberEntity_native_value self w =
     native_value_fn (entity_description self) (lm (coordinator w)) (pyhsical_key self)"

definition LaMarzoccoKeyNumberEntity_async_set_native_value ::
  "sdk \<Rightarrow> LaMarzoccoKeyNumberEntity \<Rightarrow> real \<Rightarrow> runtime \<Rightarrow> (exn + unit) \<times> runtime" where
  "LaMarzoccoKeyNumberEntity_async_set_native_value sdk self v w =
     (case await sdk
             (set_value_fn (entity_description self) (lm (coordinator w)) v (pyhsical_key self)) w of
        (Inl e, w') \<Rightarrow> (Inl e, w')
      | (Inr ok, w') \<Rightarrow> (Inr (), async_write_ha_state w'))"

subsection \<open>Setting up the entities\<close>

datatype NumberEntity =
    Number LaMarzoccoNumberEntity
  | KeyNumber LaMarzoccoKeyNumberEntity

text \<open>
  \<^verbatim>\<open>KEYS_PER_MODEL\<close> is a table of the vendor library, so it is a parameter. The loop over
  \<^verbatim>\<open>KEY_ENTITIES\<close> extends the list of entities; a model that is missing from the table
  raises \<^verbatim>\<open>KeyError\<close>.
\<close>

fun extend_key_entities ::
  "(LaMarzoccoModel \<rightharpoonup> int) \<Rightarrow> (LaMarzoccoUpdateCoordinator \<Rightarrow> string \<Rightarrow> string) \<Rightarrow>
   LaMarzoccoUpdateCoordinator \<Rightarrow> LaMarzoccoKeyNumberEntityDescription list \<Rightarrow>
   NumberEntity list \<Rightarrow> exn + NumberEntity list" where
  "extend_key_entities KEYS_PER_MODEL unique_id c [] entities = Inr entities"
| "extend_key_entities KEYS_PER_MODEL unique_id c (description # rest) entities =
     (if supported_fn description c then
        (case KEYS_PER_MODEL (model_name (lm c)) of
           None \<Rightarrow> Inl (KeyError (repr_model (model_name (lm c))))
         | Some num_keys \<Rightarrow>
             extend_key_entities KEYS_PER_MODEL unique_id c rest
               (entities @
                map (\<lambda>k. KeyNumber (LaMarzoccoKeyNumberEntity_init unique_id c description k))
                  (py_range (min num_keys 1) (num_keys + 1))))
      else extend_key_entities KEYS_PER_MODEL unique_id c rest entities)"

text \<open>
  The coordinator is \<^verbatim>\<open>hass.data[DOMAIN][config_entry.entry_id]\<close>; the result is the list
  handed to \<^verbatim>\<open>async_add_entities\<close>.
\<close>

definition async_setup_entry ::
  "(LaMarzoccoModel \<rightharpoonup> int) \<Rightarrow> (LaMarzoccoUpdateCoordinator \<Rightarrow> string \<Rightarrow> string) \<Rightarrow>
   LaMarzoccoUpdateCoordinator \<Rightarrow> exn + NumberEntity list" where
  "async_setup_entry KEYS_PER_MODEL unique_id c =
     extend_key_entities KEYS_PER_MODEL unique_id c KEY_ENTITIES
       (map (\<lambda>description. Number (LaMarzoccoEntity_init unique_id c description))
          (filter (\<lambda>description. supported_fn description c) ENTITIES))"

subsection \<open>A stub client\<close>

text \<open>
  Modelled from the spec: "a stub client that stores what it's told". The stub never
  raises. It stores each argument, in the unit of the status (seconds for the times),
  under the status field that this file reads for the same quantity: the setters above
  fill \<^verbatim>\<open>on_time\<close> from \<^verbatim>\<open>prebrewing_ton_k\<close> and \<^verbatim>\<open>off_time\<close> from \<^verbatim>\<open>prebrewing_toff_k\<close>; a call
  without \<^verbatim>\<open>on_time\<close> is the pre-infusion call.
\<close>

fun stub_store :: "sdk_call \<Rightarrow> (string \<rightharpoonup> pyval) \<Rightarrow> (string \<rightharpoonup> pyval)" where
  "stub_store (set_coffee_temp t) s = s(''coffee_set_temp'' \<mapsto> PNum t)"
| "stub_store (set_steam_temp t) s = s(''steam_set_temp'' \<mapsto> PNum (of_int t))"
| "stub_store (set_dose_hot_water d) s = s(''dose_hot_water'' \<mapsto> PNum (of_int d))"
| "stub_store (set_dose k d) s = s(''dose_k'' @ str k \<mapsto> PNum (of_int d))"
| "stub_store (configure_prebrew None None k) s = s"
| "stub_store (configure_prebrew None (Some off) k) s =
     s(''preinfusion_k'' @ str k \<mapsto> PNum (of_int off / 1000))"
| "stub_store (configure_prebrew (Some on) None k) s =
     s(''prebrewing_ton_k'' @ str k \<mapsto> PNum (of_int on / 1000))"
| "stub_store (configure_prebrew (Some on) (Some off) k) s =
     s(''prebrewing_ton_k'' @ str k \<mapsto> PNum (of_int on / 1000),
       ''prebrewing_toff_k'' @ str k \<mapsto> PNum (of_int off / 1000))"

definition stub_sdk :: sdk where
  "stub_sdk call client =
     (Inr True, client\<lparr>current_status := stub_store call (current_status client)\<rparr>)"

subsection \<open>Dispatch on the class of an entity\<close>

fun native_value :: "NumberEntity \<Rightarrow> runtime \<Rightarrow> exn + pyval" where
  "native_value (Number self) w = LaMarzoccoNumberEntity_native_value self w"
| "native_value (KeyNumber self) w = LaMarzoccoKeyNumberEntity_native_value self w"

fun async_set_native_value ::
  "sdk \<Rightarrow> NumberEntity \<Rightarrow> real \<Rightarrow> runtime \<Rightarrow> (exn + unit) \<times> runtime" where
  "async_set_native_value sdk (Number self) v w =
     LaMarzoccoNumberEntity_async_set_native_value sdk self v w"
| "async_set_native_value sdk (KeyNumber self) v w =
     LaMarzoccoKeyNumberEntity_async_set_native_value sdk self v w"

text \<open>The coroutine that \<^verbatim>\<open>async_set_native_value\<close> awaits.\<close>

fun set_value_request :: "NumberEntity \<Rightarrow> real \<Rightarrow> runtime \<Rightarrow> request" where
  "set_value_request (Number self) v w =
     set_value_fn (entity_description self) (coordinator w) v"
| "set_value_request (KeyNumber self) v w =
     set_value_fn (entity_description self) (lm (coordinator w)) v (pyhsical_key self)"

subsection \<open>Reading the log and the list of entities\<close>

definition new_events :: "runtime \<Rightarrow> runtime \<Rightarrow> event list" where
  "new_events w w' = drop (length (events w)) (events w')"



fun keyed :: "NumberEntity list \<Rightarrow> LaMarzoccoKeyNumberEntity list" where
  "keyed [] = []"
| "keyed (KeyNumber self # es) = self # keyed es"
| "keyed (Number self # es) = keyed es"

definition entities_for :: "string \<Rightarrow> NumberEntity list \<Rightarrow> LaMarzoccoKeyNumberEntity list" where
  "entities_for name entities =
     filter (\<lambda>self. key (entity_description self) = name) (keyed entities)"

definition count_for :: "string \<Rightarrow> exn + NumberEntity list \<Rightarrow> nat option" where
  "count_for name result =
     (case result of Inl e \<Rightarrow> None | Inr entities \<Rightarrow> Some (length (entities_for name entities)))"

definition keys_for :: "string \<Rightarrow> exn + NumberEntity list \<Rightarrow> int list option" where
  "keys_for name result =
     (case result of
        Inl e \<Rightarrow> None
      | Inr entities \<Rightarrow> Some (map pyhsical_key (entities_for name entities)))"

subsection \<open>Concrete machines\<close>

definition example_status :: "string \<rightharpoonup> pyval" where
  "example_status =
     [''coffee_set_temp'' \<mapsto> PNum 93.5,
      ''steam_set_temp'' \<mapsto> PNum 128,
      ''dose_hot_water'' \<mapsto> PNum 8,
      ''enable_prebrewing'' \<mapsto> PBool True,
      ''enable_preinfusion'' \<mapsto> PBool False,
      ''prebrewing_ton_k1'' \<mapsto> PNum 5,
      ''prebrewing_toff_k1'' \<mapsto> PNum 7,
      ''preinfusion_k1'' \<mapsto> PNum 4,
      ''dose_k1'' \<mapsto> PNum 120]"

definition example_client :: "LaMarzoccoModel \<Rightarrow> LaMarzoccoClient" where
  "example_client model = \<lparr> model_name = model, current_status = example_status \<rparr>"

definition example_coordinator :: "LaMarzoccoModel \<Rightarrow> LaMarzoccoUpdateCoordinator" where
  "example_coordinator model = \<lparr> lm = example_client model \<rparr>"

definition example_runtime :: "LaMarzoccoModel \<Rightarrow> runtime" where
  "example_runtime model = \<lparr> coordinator = example_coordinator model, events = [] \<rparr>"

text \<open>A client whose status has no field at all.\<close>

definition blank_client :: LaMarzoccoClient where
  "blank_client = \<lparr> model_name = GS3_AV, current_status = Map.empty \<rparr>"

definition blank_runtime :: runtime where
  "blank_runtime = \<lparr> coordinator = \<lparr> lm = blank_client \<rparr>, events = [] \<rparr>"

definition example_unique_id :: "LaMarzoccoUpdateCoordinator \<Rightarrow> string \<Rightarrow> string" where
  "example_unique_id c name = ''GS01234_'' @ name"

text \<open>A table of keys in which a model other than the GS3 has a single group.\<close>

definition example_KEYS_PER_MODEL :: "LaMarzoccoModel \<rightharpoonup> int" where
  "example_KEYS_PER_MODEL =
     [GS3_AV \<mapsto> 4, GS3_MP \<mapsto> 0, OtherModel ''LINEA_MINI'' \<mapsto> 0]"

text \<open>An SDK whose every call fails.\<close>

definition failing_sdk :: sdk where
  "failing_sdk call client = (Inl (SdkError ''request failed''), client)"

definition prebrew_on_key1 :: NumberEntity where
  "prebrew_on_key1 =
     KeyNumber (LaMarzoccoKeyNumberEntity_init example_unique_id (example_coordinator GS3_AV)
       (KEY_ENTITIES ! 1) 1)"

definition steam_temp_entity :: NumberEntity where
  "steam_temp_entity =
     Number (LaMarzoccoEntity_init example_unique_id (example_coordinator GS3_AV) (ENTITIES ! 1))"

section \<open>Properties\<close>

subsection \<open>Auxiliary facts\<close>

lemma str_1: "str 1 = ''1''"
  by (simp add: str_def str_nat.simps digit_def)

lemma await_request:
  "await sdk (Inr call) w =
     (fst (sdk call (lm (coordinator w))),
      w\<lparr>coordinator := (coordinator w)\<lparr>lm := snd (sdk call (lm (coordinator w)))\<rparr>,
        events := events w @ [SdkCall call,
          case fst (sdk call (lm (coordinator w))) of
            Inl e \<Rightarrow> SdkRaised e | Inr ok \<Rightarrow> SdkReturned ok]\<rparr>)"
  by (simp add: await_def split: prod.splits sum.splits)

lemma await_raise: "await sdk (Inl e) w = (Inl e, w)"
  by (simp add: await_def)


lemma py_int_of_int: "py_int (of_int n) = n"
  by (simp add: py_int_def)





lemma KEY_ENTITIES_keys:
  "map key KEY_ENTITIES = [''prebrew_off'', ''prebrew_on'', ''preinfusion_off'', ''dose'']"
  by (simp add: KEY_ENTITIES_def)


subsection \<open>The composite setters\<close>






subsection \<open>The tables of descriptions\<close>

text \<open>
  C6. The supported predicate of each description holds exactly for the declared models:
  \<^verbatim>\<open>steam_temp\<close> and \<^verbatim>\<open>tea_water_duration\<close> for the GS3 AV and the GS3 MP; \<^verbatim>\<open>prebrew_off\<close>,
  \<^verbatim>\<open>prebrew_on\<close> and \<^verbatim>\<open>preinfusion_off\<close> for every model but the GS3 MP; \<^verbatim>\<open>dose\<close> for the
  GS3 AV only; \<^verbatim>\<open>coffee_temp\<close>, which declares no predicate, for every model.
\<close>

theorem supported_fn_declared_models:
  "map (\<lambda>d. (key d, supported_fn d c)) ENTITIES =
     [(''coffee_temp'', True),
      (''steam_temp'', model_name (lm c) \<in> {GS3_AV, GS3_MP}),
      (''tea_water_duration'', model_name (lm c) \<in> {GS3_AV, GS3_MP})]
   \<and> map (\<lambda>d. (key d, supported_fn d c)) KEY_ENTITIES =
     [(''prebrew_off'', model_name (lm c) \<noteq> GS3_MP),
      (''prebrew_on'', model_name (lm c) \<noteq> GS3_MP),
      (''preinfusion_off'', model_name (lm c) \<noteq> GS3_MP),
      (''dose'', model_name (lm c) = GS3_AV)]"
  by (simp add: ENTITIES_def KEY_ENTITIES_def default_supported_fn_def)

text \<open>
  C7, as the claim states it, fails for \<^verbatim>\<open>dose\<close>: the description declares no available
  predicate, so it is available on a client whose status has no mode flag at all, where
  \<^verbatim>\<open>prebrew_off\<close> raises \<^verbatim>\<open>KeyError\<close> for the flag it reads.
\<close>

theorem dose_available_counterexample:
  "key (KEY_ENTITIES ! 3) = ''dose''
   \<and> available_fn (KEY_ENTITIES ! 3) blank_client = Inr (PBool True)
   \<and> available_fn (KEY_ENTITIES ! 0) blank_client = Inl (KeyError ''enable_prebrewing'')"
  by (simp add: KEY_ENTITIES_def default_available_fn_def blank_client_def getitem_def)

text \<open>
  C7, amended. The available predicate of \<^verbatim>\<open>prebrew_off\<close> and of \<^verbatim>\<open>prebrew_on\<close> is the
  flag \<^verbatim>\<open>enable_prebrewing\<close> of the status and that of \<^verbatim>\<open>preinfusion_off\<close> is the flag
  \<^verbatim>\<open>enable_preinfusion\<close>; \<^verbatim>\<open>dose\<close> keeps the default predicate and is available whatever
  the status holds.
\<close>

theorem available_fn_mode_flags:
  "map (\<lambda>d. (key d, available_fn d client)) KEY_ENTITIES =
     [(''prebrew_off'', getitem (current_status client) ''enable_prebrewing''),
      (''prebrew_on'', getitem (current_status client) ''enable_prebrewing''),
      (''preinfusion_off'', getitem (current_status client) ''enable_preinfusion''),
      (''dose'', Inr (PBool True))]"
  by (simp add: KEY_ENTITIES_def default_available_fn_def)



subsection \<open>Decimal strings\<close>

lemma digit_inj: "d < 10 \<Longrightarrow> d' < 10 \<Longrightarrow> digit d = digit d' \<Longrightarrow> d = d'"
proof -
  assume a: "d < 10" "d' < 10" "digit d = digit d'"
  have "distinct ''0123456789''" by simp
  moreover have "length ''0123456789'' = 10" by simp
  ultimately show ?thesis
    using a unfolding digit_def by (metis nth_eq_iff_index_eq)
qed

lemma digit_in: "d < 10 \<Longrightarrow> digit d \<in> set ''0123456789''"
  unfolding digit_def by (rule nth_mem) simp

lemma str_nat_digits: "set (str_nat n) \<subseteq> set ''0123456789''"
proof (induction n rule: str_nat.induct)
  case (1 n)
  show ?case
  proof (cases "n < 10")
    case True
    then show ?thesis
      using digit_in [of n] by (subst str_nat.simps) simp
  next
    case False
    have "n mod 10 < 10" by simp
    with False 1 digit_in [of "n mod 10"] show ?thesis
      by (subst str_nat.simps) simp
  qed
qed

lemma str_nat_not_Nil: "str_nat n \<noteq> []"
  by (subst str_nat.simps) simp

lemma str_nat_inj: "str_nat m = str_nat n \<Longrightarrow> m = n"
proof (induction m arbitrary: n rule: str_nat.induct)
  case (1 m)
  show ?case
  proof (cases "m < 10")
    case m: True
    show ?thesis
    proof (cases "n < 10")
      case True
      with m 1(2) show ?thesis
        by (simp add: str_nat.simps [of m] str_nat.simps [of n] digit_inj)
    next
      case False
      with m 1(2) str_nat_not_Nil [of "n div 10"] show ?thesis
        by (simp add: str_nat.simps [of m] str_nat.simps [of n])
    qed
  next
    case m: False
    show ?thesis
    proof (cases "n < 10")
      case True
      with m 1(2) str_nat_not_Nil [of "m div 10"] show ?thesis
        by (simp add: str_nat.simps [of m] str_nat.simps [of n])
    next
      case False
      with m 1(2) have e: "str_nat (m div 10) = str_nat (n div 10)"
        and d: "digit (m mod 10) = digit (n mod 10)"
        by (simp_all add: str_nat.simps [of m] str_nat.simps [of n])
      from 1(1) [OF m e] have "m div 10 = n div 10" .
      moreover from d have "m mod 10 = n mod 10"
        by (simp add: digit_inj)
      ultimately show ?thesis
        by (metis div_mult_mod_eq)
    qed
  qed
qed

lemma str_nat_no_minus: "hd (str_nat n) \<noteq> CHR ''-''"
proof -
  have "hd (str_nat n) \<in> set (str_nat n)"
    by (simp add: str_nat_not_Nil)
  with str_nat_digits [of n] show ?thesis
    by auto
qed

lemma str_inj: "str i = str j \<Longrightarrow> i = j"
proof -
  assume a: "str i = str j"
  show ?thesis
  proof (cases "i < 0")
    case i: True
    show ?thesis
    proof (cases "j < 0")
      case True
      with i a have "nat (- i) = nat (- j)"
        by (simp add: str_def str_nat_inj)
      with i True show ?thesis by simp
    next
      case False
      with i a str_nat_no_minus [of "nat j"] show ?thesis
        by (auto simp: str_def dest: arg_cong [where f = hd])
    qed
  next
    case i: False
    show ?thesis
    proof (cases "j < 0")
      case True
      with i a str_nat_no_minus [of "nat i"] show ?thesis
        by (auto simp: str_def dest: arg_cong [where f = hd])
    next
      case False
      with i a have "nat i = nat j"
        by (simp add: str_def str_nat_inj)
      with i False show ?thesis by simp
    qed
  qed
qed

subsection \<open>Setting a value\<close>

lemmas entity_defs =
  LaMarzoccoKeyNumberEntity_init_def LaMarzoccoEntity_init_def
  LaMarzoccoKeyNumberEntity_async_set_native_value_def LaMarzoccoKeyNumberEntity_native_value_def
  LaMarzoccoNumberEntity_async_set_native_value_def LaMarzoccoNumberEntity_native_value_def

lemma async_set_native_value_await:
  "async_set_native_value sdk e v w =
     (case await sdk (set_value_request e v w) w of
        (Inl x, w') \<Rightarrow> (Inl x, w')
      | (Inr ok, w') \<Rightarrow> (Inr (), async_write_ha_state w'))"
  by (cases e)
    (simp_all add: LaMarzoccoNumberEntity_async_set_native_value_def
      LaMarzoccoKeyNumberEntity_async_set_native_value_def)

lemma async_set_native_value_raise:
  "set_value_request e v w = Inl x \<Longrightarrow> async_set_native_value sdk e v w = (Inl x, w)"
  by (simp add: async_set_native_value_await await_raise)

lemma async_set_native_value_sdk_raise:
  "set_value_request e v w = Inr call \<Longrightarrow> sdk call (lm (coordinator w)) = (Inl x, client') \<Longrightarrow>
   async_set_native_value sdk e v w =
     (Inl x, w\<lparr>coordinator := (coordinator w)\<lparr>lm := client'\<rparr>,
               events := events w @ [SdkCall call, SdkRaised x]\<rparr>)"
  by (simp add: async_set_native_value_await await_request)


lemma steam_request:
  "set_value_request steam_temp_entity 127 (example_runtime GS3_AV) = Inr (set_steam_temp 127)"
  by (simp add: steam_temp_entity_def ENTITIES_def LaMarzoccoEntity_init_def py_int_def)

lemma prebrew_on_blank_request:
  "set_value_request prebrew_on_key1 3 blank_runtime = Inl (KeyError ''prebrewing_toff_k1'')"
  by (simp add: prebrew_on_key1_def KEY_ENTITIES_def LaMarzoccoKeyNumberEntity_init_def
      LaMarzoccoEntity_init_def set_prebrew_on_def blank_runtime_def blank_client_def getitem_def
      str_1)



text \<open>
  C9. Nothing is caught: when the call of the SDK raises, \<^verbatim>\<open>async_set_native_value\<close>
  raises the same exception and the events it adds are the call and the exception, with
  no \<open>WriteHaState\<close>; when the arguments of the call already raise (a field missing from
  the status), it raises that exception and changes nothing.
\<close>

theorem setter_exception_propagates:
  "(set_value_request e v w = Inr call \<and> fst (sdk call (lm (coordinator w))) = Inl x \<longrightarrow>
      fst (async_set_native_value sdk e v w) = Inl x
      \<and> new_events w (snd (async_set_native_value sdk e v w)) = [SdkCall call, SdkRaised x]
      \<and> WriteHaState \<notin> set (new_events w (snd (async_set_native_value sdk e v w))))
   \<and> (set_value_request e v w = Inl x \<longrightarrow>
      async_set_native_value sdk e v w = (Inl x, w)
      \<and> WriteHaState \<notin> set (new_events w (snd (async_set_native_value sdk e v w))))"
proof (intro conjI impI)
  assume "set_value_request e v w = Inl x"
  then show "async_set_native_value sdk e v w = (Inl x, w)"
    and "WriteHaState \<notin> set (new_events w (snd (async_set_native_value sdk e v w)))"
    by (simp_all add: async_set_native_value_raise new_events_def)
next
  assume a: "set_value_request e v w = Inr call \<and> fst (sdk call (lm (coordinator w))) = Inl x"
  then obtain client' where "sdk call (lm (coordinator w)) = (Inl x, client')"
    by (cases "sdk call (lm (coordinator w))") simp
  with a have r: "async_set_native_value sdk e v w =
     (Inl x, w\<lparr>coordinator := (coordinator w)\<lparr>lm := client'\<rparr>,
               events := events w @ [SdkCall call, SdkRaised x]\<rparr>)"
    by (simp add: async_set_native_value_sdk_raise)
  show "fst (async_set_native_value sdk e v w) = Inl x"
    and "new_events w (snd (async_set_native_value sdk e v w)) = [SdkCall call, SdkRaised x]"
    and "WriteHaState \<notin> set (new_events w (snd (async_set_native_value sdk e v w)))"
    by (simp_all add: r new_events_def)
qed

theorem setter_exception_propagates_witness:
  "set_value_request steam_temp_entity 127 (example_runtime GS3_AV) = Inr (set_steam_temp 127)
   \<and> fst (failing_sdk (set_steam_temp 127) (lm (coordinator (example_runtime GS3_AV))))
       = Inl (SdkError ''request failed'')
   \<and> fst (async_set_native_value failing_sdk steam_temp_entity 127 (example_runtime GS3_AV))
       = Inl (SdkError ''request failed'')
   \<and> new_events (example_runtime GS3_AV)
        (snd (async_set_native_value failing_sdk steam_temp_entity 127 (example_runtime GS3_AV)))
       = [SdkCall (set_steam_temp 127), SdkRaised (SdkError ''request failed'')]
   \<and> set_value_request prebrew_on_key1 3 blank_runtime = Inl (KeyError ''prebrewing_toff_k1'')
   \<and> async_set_native_value stub_sdk prebrew_on_key1 3 blank_runtime
       = (Inl (KeyError ''prebrewing_toff_k1''), blank_runtime)"
proof -
  have f: "fst (failing_sdk (set_steam_temp 127) (lm (coordinator (example_runtime GS3_AV))))
       = Inl (SdkError ''request failed'')"
    by (simp add: failing_sdk_def)
  from steam_request f prebrew_on_blank_request
    setter_exception_propagates [of steam_temp_entity 127 "example_runtime GS3_AV"
      "set_steam_temp 127" failing_sdk "SdkError ''request failed''"]
    setter_exception_propagates [of prebrew_on_key1 3 blank_runtime
      "set_steam_temp 127" stub_sdk "KeyError ''prebrewing_toff_k1''"]
  show ?thesis
    by blast
qed

subsection \<open>Setting a value and reading it back\<close>

text \<open>
  With the stub, the descriptions whose getter reads the field their setter writes give
  back the value that was set: \<^verbatim>\<open>coffee_temp\<close> for every value, \<^verbatim>\<open>steam_temp\<close>,
  \<^verbatim>\<open>tea_water_duration\<close> and \<^verbatim>\<open>dose\<close> for whole values, \<^verbatim>\<open>preinfusion_off\<close> for whole
  milliseconds.
\<close>

lemma round_trip_scalar:
  assumes "d \<in> set ENTITIES" and "key d = ''coffee_temp'' \<or> v = of_int n"
  shows "native_value (Number (LaMarzoccoEntity_init uid c d))
           (snd (async_set_native_value stub_sdk (Number (LaMarzoccoEntity_init uid c d)) v w)) =
         Inr (PNum v)"
  using assms
  by (auto simp: ENTITIES_def entity_defs await_def stub_sdk_def getitem_def
      async_write_ha_state_def py_int_of_int)

lemma round_trip_keyed:
  assumes "d \<in> set KEY_ENTITIES"
    and "key d = ''preinfusion_off'' \<and> v * 1000 = of_int n \<or> key d = ''dose'' \<and> v = of_int n"
  shows "native_value (KeyNumber (LaMarzoccoKeyNumberEntity_init uid c d k))
           (snd (async_set_native_value stub_sdk
              (KeyNumber (LaMarzoccoKeyNumberEntity_init uid c d k)) v w)) =
         Inr (PNum v)"
  using assms
  by (auto simp: KEY_ENTITIES_def entity_defs await_def stub_sdk_def getitem_def
      async_write_ha_state_def py_int_of_int set_preinfusion_def Let_def)

text \<open>
  C1 at the description \<^verbatim>\<open>prebrew_on\<close>, key 1, value 3 (inside its range of 2 to 10), on
  a status with \<^verbatim>\<open>prebrewing_ton_k1 = 5\<close> and \<^verbatim>\<open>prebrewing_toff_k1 = 7\<close>. The setter sends the
  value as \<^verbatim>\<open>on_time\<close> and the old \<^verbatim>\<open>prebrewing_toff_k1\<close> as \<^verbatim>\<open>off_time\<close>; the stub stores
  3 under \<^verbatim>\<open>prebrewing_ton_k1\<close>; the getter of the same description reads
  \<^verbatim>\<open>prebrewing_toff_k1\<close> and returns 7, not 3.
\<close>

theorem prebrew_on_set_then_get:
  "set_value_request prebrew_on_key1 3 (example_runtime GS3_AV) =
     Inr (configure_prebrew (Some 3000) (Some 7000) 1)
   \<and> fst (async_set_native_value stub_sdk prebrew_on_key1 3 (example_runtime GS3_AV)) = Inr ()
   \<and> native_value prebrew_on_key1
       (snd (async_set_native_value stub_sdk prebrew_on_key1 3 (example_runtime GS3_AV))) =
     Inr (PNum 7)
   \<and> current_status (lm (coordinator
        (snd (async_set_native_value stub_sdk prebrew_on_key1 3 (example_runtime GS3_AV)))))
         ''prebrewing_ton_k1'' = Some (PNum 3)"
  by (simp add: prebrew_on_key1_def KEY_ENTITIES_def entity_defs await_def stub_sdk_def
      set_prebrew_on_def getitem_def example_runtime_def example_coordinator_def
      example_client_def example_status_def async_write_ha_state_def py_int_def str_1 Let_def)

subsection \<open>The identity of a keyed entity\<close>

text \<open>
  C5. The entity built for key index 0 keeps what the base class set (unique id,
  translation key, no placeholders, enabled by default) and represents physical key 1.
  The entity built for any other key has the unique id of the base followed by
  \<^verbatim>\<open>_key\<close> and the key, the translation key of the description followed by \<^verbatim>\<open>_key\<close>,
  the key as placeholder, and is disabled by default; its unique id differs from the base
  and from that of every other key.
\<close>

theorem key_entity_identity:
  "(k = 0 \<longrightarrow>
      attr_unique_id (LaMarzoccoKeyNumberEntity_init uid c d k)
        = attr_unique_id (LaMarzoccoEntity_init uid c d)
      \<and> attr_translation_key (LaMarzoccoKeyNumberEntity_init uid c d k)
        = attr_translation_key (LaMarzoccoEntity_init uid c d)
      \<and> attr_translation_placeholders (LaMarzoccoKeyNumberEntity_init uid c d k)
        = attr_translation_placeholders (LaMarzoccoEntity_init uid c d)
      \<and> attr_entity_registry_enabled_default (LaMarzoccoKeyNumberEntity_init uid c d k)
      \<and> pyhsical_key (LaMarzoccoKeyNumberEntity_init uid c d k) = 1)
   \<and> (k \<noteq> 0 \<longrightarrow>
      attr_unique_id (LaMarzoccoKeyNumberEntity_init uid c d k)
        = attr_unique_id (LaMarzoccoEntity_init uid c d) @ ''_key'' @ str k
      \<and> attr_unique_id (LaMarzoccoKeyNumberEntity_init uid c d k)
        \<noteq> attr_unique_id (LaMarzoccoEntity_init uid c d)
      \<and> attr_translation_key (LaMarzoccoKeyNumberEntity_init uid c d k)
        = translation_key d @ ''_key''
      \<and> attr_translation_key (LaMarzoccoKeyNumberEntity_init uid c d k)
        \<noteq> attr_translation_key (LaMarzoccoEntity_init uid c d)
      \<and> attr_translation_placeholders (LaMarzoccoKeyNumberEntity_init uid c d k)
        = Some [(''key'', str k)]
      \<and> \<not> attr_entity_registry_enabled_default (LaMarzoccoKeyNumberEntity_init uid c d k)
      \<and> pyhsical_key (LaMarzoccoKeyNumberEntity_init uid c d k) = k)
   \<and> (k \<noteq> 0 \<and> j \<noteq> 0 \<and> k \<noteq> j \<longrightarrow>
      attr_unique_id (LaMarzoccoKeyNumberEntity_init uid c d k)
        \<noteq> attr_unique_id (LaMarzoccoKeyNumberEntity_init uid c d j))"
  by (auto simp: LaMarzoccoKeyNumberEntity_init_def LaMarzoccoEntity_init_def Let_def
      dest: str_inj)

theorem key_entity_identity_witness:
  "attr_unique_id (LaMarzoccoKeyNumberEntity_init example_unique_id (example_coordinator GS3_AV)
      (KEY_ENTITIES ! 1) 0) = ''GS01234_prebrew_on''
   \<and> attr_entity_registry_enabled_default (LaMarzoccoKeyNumberEntity_init example_unique_id
      (example_coordinator GS3_AV) (KEY_ENTITIES ! 1) 0)
   \<and> pyhsical_key (LaMarzoccoKeyNumberEntity_init example_unique_id (example_coordinator GS3_AV)
      (KEY_ENTITIES ! 1) 0) = 1
   \<and> attr_unique_id (LaMarzoccoKeyNumberEntity_init example_unique_id (example_coordinator GS3_AV)
      (KEY_ENTITIES ! 1) 2) = ''GS01234_prebrew_on_key2''
   \<and> attr_translation_key (LaMarzoccoKeyNumberEntity_init example_unique_id
      (example_coordinator GS3_AV) (KEY_ENTITIES ! 1) 2) = ''prebrew_on_key''
   \<and> \<not> attr_entity_registry_enabled_default (LaMarzoccoKeyNumberEntity_init example_unique_id
      (example_coordinator GS3_AV) (KEY_ENTITIES ! 1) 2)
   \<and> attr_unique_id (LaMarzoccoKeyNumberEntity_init example_unique_id (example_coordinator GS3_AV)
      (KEY_ENTITIES ! 1) 2)
     \<noteq> attr_unique_id (LaMarzoccoKeyNumberEntity_init example_unique_id
      (example_coordinator GS3_AV) (KEY_ENTITIES ! 1) 3)"
proof -
  let ?c = "example_coordinator GS3_AV"
  let ?d = "KEY_ENTITIES ! 1"
  have base: "attr_unique_id (LaMarzoccoEntity_init example_unique_id ?c ?d) = ''GS01234_prebrew_on''"
    by (simp add: LaMarzoccoEntity_init_def example_unique_id_def KEY_ENTITIES_def)
  have tk: "translation_key ?d = ''prebrew_on''"
    by (simp add: KEY_ENTITIES_def)
  have s2: "str 2 = ''2''"
    by (simp add: str_def str_nat.simps digit_def)
  have k: "(2::int) \<noteq> 0" "(2::int) \<noteq> 0 \<and> (3::int) \<noteq> 0 \<and> (2::int) \<noteq> 3"
    by simp_all
  note zero = key_entity_identity [where k = 0 and uid = example_unique_id and c = ?c and d = ?d,
      THEN conjunct1, rule_format, OF refl]
  note two = key_entity_identity [where k = 2 and uid = example_unique_id and c = ?c and d = ?d,
      THEN conjunct2, THEN conjunct1, rule_format, OF k(1)]
  note apart = key_entity_identity [where k = 2 and j = 3 and uid = example_unique_id
      and c = ?c and d = ?d, THEN conjunct2, THEN conjunct2, rule_format, OF k(2)]
  have app: "''GS01234_prebrew_on'' @ ''_key'' @ ''2'' = ''GS01234_prebrew_on_key2''"
    "''prebrew_on'' @ ''_key'' = ''prebrew_on_key''"
    by simp_all
  note id2 = two [THEN conjunct1, unfolded base s2 app]
  note tk2 = two [THEN conjunct2, THEN conjunct2, THEN conjunct1, unfolded tk app]
  note id0 = zero [THEN conjunct1, unfolded base]
  from zero two apart id0 id2 tk2 show ?thesis
    by blast
qed

subsection \<open>Setting up the keyed entities\<close>

lemma keyed_append: "keyed (xs @ ys) = keyed xs @ keyed ys"
  by (induction xs rule: keyed.induct) simp_all

lemma keyed_Number: "keyed (map (\<lambda>d. Number (f d)) ds) = []"
  by (induction ds) simp_all

lemma keyed_KeyNumber: "keyed (map (\<lambda>k. KeyNumber (f k)) ks) = map f ks"
  by (induction ks) simp_all

lemma init_description:
  "entity_description (LaMarzoccoKeyNumberEntity_init uid c d k) = d"
  by (simp add: LaMarzoccoKeyNumberEntity_init_def LaMarzoccoEntity_init_def Let_def)

lemma init_pyhsical_key:
  "pyhsical_key (LaMarzoccoKeyNumberEntity_init uid c d k) = (if k = 0 then 1 else k)"
  by (simp add: LaMarzoccoKeyNumberEntity_init_def Let_def)

lemma extend_key_entities_keys:
  "KEYS_PER_MODEL (model_name (lm c)) = Some n \<Longrightarrow>
   extend_key_entities KEYS_PER_MODEL uid c ds entities =
     Inr (entities @ concat (map
       (\<lambda>d. map (\<lambda>k. KeyNumber (LaMarzoccoKeyNumberEntity_init uid c d k))
          (py_range (min n 1) (n + 1)))
       (filter (\<lambda>d. supported_fn d c) ds)))"
  by (induction ds arbitrary: entities) simp_all

lemma extend_key_entities_unsupported:
  "\<forall>d \<in> set ds. \<not> supported_fn d c \<Longrightarrow>
   extend_key_entities KEYS_PER_MODEL uid c ds entities = Inr entities"
  by (induction ds arbitrary: entities) simp_all

lemma extend_key_entities_missing:
  "KEYS_PER_MODEL (model_name (lm c)) = None \<Longrightarrow> \<exists>d \<in> set ds. supported_fn d c \<Longrightarrow>
   extend_key_entities KEYS_PER_MODEL uid c ds entities = Inl (KeyError (repr_model (model_name (lm c))))"
  by (induction ds arbitrary: entities) auto

lemma filter_key_block:
  "filter (\<lambda>self. key (entity_description self) = name)
     (map (LaMarzoccoKeyNumberEntity_init uid c d) ks) =
   (if key d = name then map (LaMarzoccoKeyNumberEntity_init uid c d) ks else [])"
  by (induction ks) (simp_all add: init_description)

lemma filter_key_blocks:
  "distinct (map key ds) \<Longrightarrow> d \<in> set ds \<Longrightarrow>
   filter (\<lambda>self. key (entity_description self) = key d)
     (keyed (concat (map
       (\<lambda>d. map (\<lambda>k. KeyNumber (LaMarzoccoKeyNumberEntity_init uid c d k)) ks)
       (filter P ds)))) =
   (if P d then map (LaMarzoccoKeyNumberEntity_init uid c d) ks else [])"
proof (induction ds)
  case Nil
  then show ?case by simp
next
  case (Cons a ds)
  show ?case
  proof (cases "d = a")
    case True
    with Cons.prems have "\<forall>x \<in> set ds. key x \<noteq> key d"
      by (fastforce simp: image_iff)
    then have "filter (\<lambda>self. key (entity_description self) = key d)
     (keyed (concat (map
       (\<lambda>d. map (\<lambda>k. KeyNumber (LaMarzoccoKeyNumberEntity_init uid c d k)) ks)
       (filter P ds)))) = []"
      by (induction ds) (simp_all add: keyed_append keyed_KeyNumber filter_key_block)
    with True show ?thesis
      by (simp add: keyed_append keyed_KeyNumber filter_key_block)
  next
    case False
    with Cons.prems have "d \<in> set ds" "key a \<noteq> key d" "distinct (map key ds)"
      by auto
    with Cons.IH show ?thesis
      by (simp add: keyed_append keyed_KeyNumber filter_key_block)
  qed
qed

lemma entities_for_setup:
  assumes "d \<in> set KEY_ENTITIES" and "supported_fn d c"
    and "KEYS_PER_MODEL (model_name (lm c)) = Some n"
  shows "\<exists>entities. async_setup_entry KEYS_PER_MODEL uid c = Inr entities
    \<and> entities_for (key d) entities =
        map (LaMarzoccoKeyNumberEntity_init uid c d) (py_range (min n 1) (n + 1))"
proof -
  have "distinct (map key KEY_ENTITIES)"
    by (simp add: KEY_ENTITIES_keys)
  with assms show ?thesis
    by (simp add: async_setup_entry_def extend_key_entities_keys entities_for_def keyed_append
        keyed_Number filter_key_blocks)
qed

lemma keys_of_range:
  "map (\<lambda>k. if k = 0 then 1 else k) (py_range (min n 1) (n + 1)) =
     (if 1 \<le> n then [1..n] else if n = 0 then [1] else [n])"
proof -
  have "map (\<lambda>k. if k = 0 then 1 else k) [1..n] = [1..n]"
    by (rule map_idI) auto
  then show ?thesis
    by (auto simp: py_range_def min_def)
qed

lemma length_range: "length (py_range (min n 1) (n + 1)) = nat (max 1 n)"
  by (auto simp: py_range_def min_def max_def)

lemma mini_supported:
  "KEY_ENTITIES ! 1 \<in> set KEY_ENTITIES" "key (KEY_ENTITIES ! 1) = ''prebrew_on''"
  "supported_fn (KEY_ENTITIES ! 1) (example_coordinator (OtherModel ''LINEA_MINI''))"
  "example_KEYS_PER_MODEL (model_name (lm (example_coordinator (OtherModel ''LINEA_MINI'')))) = Some 0"
  "supported_fn (KEY_ENTITIES ! 1) (example_coordinator GS3_AV)"
  "example_KEYS_PER_MODEL (model_name (lm (example_coordinator GS3_AV))) = Some 4"
  by (simp_all add: KEY_ENTITIES_def example_coordinator_def example_client_def
      example_KEYS_PER_MODEL_def)

text \<open>
  C4, as the claim states it, fails where the table gives 0 keys to a model: the range
  starts at \<open>min num_keys 1\<close>, so \<^verbatim>\<open>range(0, 1)\<close> yields the key index 0 and one entity
  is created, not none.
\<close>

theorem single_group_counterexample:
  "example_KEYS_PER_MODEL (model_name (lm (example_coordinator (OtherModel ''LINEA_MINI''))))
     = Some 0
   \<and> supported_fn (KEY_ENTITIES ! 1) (example_coordinator (OtherModel ''LINEA_MINI''))
   \<and> count_for ''prebrew_on'' (async_setup_entry example_KEYS_PER_MODEL example_unique_id
        (example_coordinator (OtherModel ''LINEA_MINI''))) = Some 1"
proof -
  from mini_supported
    entities_for_setup [where d = "KEY_ENTITIES ! 1"
      and c = "example_coordinator (OtherModel ''LINEA_MINI'')"
      and KEYS_PER_MODEL = example_KEYS_PER_MODEL and n = 0 and uid = example_unique_id]
  have "count_for ''prebrew_on'' (async_setup_entry example_KEYS_PER_MODEL example_unique_id
        (example_coordinator (OtherModel ''LINEA_MINI''))) = Some 1"
    by (auto simp: count_for_def mini_supported(2) py_range_def)
  with mini_supported show ?thesis
    by blast
qed

text \<open>
  C4, amended. For a supported keyed description and \<open>n\<close> the entry of the model in
  \<^verbatim>\<open>KEYS_PER_MODEL\<close>, the setup creates \<open>max 1 n\<close> entities of that description: the
  physical keys 1 to \<open>n\<close> when \<open>n\<close> is at least 1, and for \<open>n = 0\<close> one entity, whose key
  index 0 is normalized to physical key 1.
\<close>

theorem setup_creates_keys:
  "d \<in> set KEY_ENTITIES \<and> supported_fn d c \<and> KEYS_PER_MODEL (model_name (lm c)) = Some n \<longrightarrow>
   count_for (key d) (async_setup_entry KEYS_PER_MODEL uid c) = Some (nat (max 1 n))
   \<and> keys_for (key d) (async_setup_entry KEYS_PER_MODEL uid c) =
       Some (if 1 \<le> n then [1..n] else if n = 0 then [1] else [n])"
proof
  assume a: "d \<in> set KEY_ENTITIES \<and> supported_fn d c \<and> KEYS_PER_MODEL (model_name (lm c)) = Some n"
  then obtain entities where "async_setup_entry KEYS_PER_MODEL uid c = Inr entities"
    and "entities_for (key d) entities =
        map (LaMarzoccoKeyNumberEntity_init uid c d) (py_range (min n 1) (n + 1))"
    using entities_for_setup [of d c KEYS_PER_MODEL n uid] by blast
  then show "count_for (key d) (async_setup_entry KEYS_PER_MODEL uid c) = Some (nat (max 1 n))
   \<and> keys_for (key d) (async_setup_entry KEYS_PER_MODEL uid c) =
       Some (if 1 \<le> n then [1..n] else if n = 0 then [1] else [n])"
    by (simp add: count_for_def keys_for_def length_range init_pyhsical_key comp_def
        keys_of_range)
qed

theorem setup_creates_keys_witness:
  "KEY_ENTITIES ! 1 \<in> set KEY_ENTITIES
   \<and> supported_fn (KEY_ENTITIES ! 1) (example_coordinator GS3_AV)
   \<and> example_KEYS_PER_MODEL (model_name (lm (example_coordinator GS3_AV))) = Some 4
   \<and> count_for ''prebrew_on'' (async_setup_entry example_KEYS_PER_MODEL example_unique_id
        (example_coordinator GS3_AV)) = Some 4
   \<and> keys_for ''prebrew_on'' (async_setup_entry example_KEYS_PER_MODEL example_unique_id
        (example_coordinator GS3_AV)) = Some [1, 2, 3, 4]
   \<and> count_for ''prebrew_on'' (async_setup_entry example_KEYS_PER_MODEL example_unique_id
        (example_coordinator (OtherModel ''LINEA_MINI''))) = Some 1
   \<and> keys_for ''prebrew_on'' (async_setup_entry example_KEYS_PER_MODEL example_unique_id
        (example_coordinator (OtherModel ''LINEA_MINI''))) = Some [1]"
proof -
  have n: "nat (max 1 4) = 4" "nat (max 1 0) = 1"
    "(if (1::int) \<le> 4 then [1..4] else if (4::int) = 0 then [1] else [4]) = [1, 2, 3, 4]"
    "(if (1::int) \<le> 0 then [1..0] else if (0::int) = 0 then [1] else [0]) = [1]"
    by (simp_all add: upto.simps)
  note av = setup_creates_keys [where d = "KEY_ENTITIES ! 1" and c = "example_coordinator GS3_AV"
      and KEYS_PER_MODEL = example_KEYS_PER_MODEL and n = 4 and uid = example_unique_id,
      unfolded mini_supported(2) n]
  note mini = setup_creates_keys [where d = "KEY_ENTITIES ! 1"
      and c = "example_coordinator (OtherModel ''LINEA_MINI'')"
      and KEYS_PER_MODEL = example_KEYS_PER_MODEL and n = 0 and uid = example_unique_id,
      unfolded mini_supported(2) n]
  from av mini mini_supported show ?thesis
    by blast
qed

end
